theory Spec2Isabelle
  imports Main
begin

section \<open>JavaScript values used by the components\<close>

text \<open>
  The two components are TypeScript/React. The parts of the language they rely on are
  written out here: truthiness of strings and of bigints, \<^verbatim>\<open>String.prototype.toLowerCase\<close>
  and the \<^verbatim>\<open>BigInt(string)\<close> conversion. A value that may be \<^verbatim>\<open>undefined\<close> or
  \<^verbatim>\<open>null\<close> is an \<open>option\<close>; a bigint is an \<open>int\<close>. Strings are taken to be ASCII
  (addresses, hashes and decimal numbers are).
\<close>

datatype js_error = SyntaxError | TypeError

text \<open>\<^verbatim>\<open>!!s\<close> for \<^verbatim>\<open>s : string | undefined\<close>: only a non-empty string is truthy.\<close>

definition truthy_string :: "string option \<Rightarrow> bool" where
  "truthy_string v = (case v of None \<Rightarrow> False | Some s \<Rightarrow> s \<noteq> [])"

text \<open>\<^verbatim>\<open>!!n\<close> for \<^verbatim>\<open>n : bigint | undefined\<close>: \<^verbatim>\<open>undefined\<close> and \<^verbatim>\<open>0n\<close> are falsy.\<close>

definition truthy_bigint :: "int option \<Rightarrow> bool" where
  "truthy_bigint v = (case v of None \<Rightarrow> False | Some n \<Rightarrow> n \<noteq> 0)"

text \<open>
  \<^verbatim>\<open>toLowerCase\<close> on ASCII: a letter A to Z (codes 65 to 90) becomes the letter 32
  codes higher, which sets bit 5 of its code; every other character is kept.
\<close>

definition toLowerCase_char :: "char \<Rightarrow> char" where
  "toLowerCase_char c =
     (let k = (of_char c :: nat)
      in if 65 \<le> k \<and> k \<le> 90
         then (case c of Char b0 b1 b2 b3 b4 b5 b6 b7 \<Rightarrow> Char b0 b1 b2 b3 b4 True b6 b7)
         else c)"

definition toLowerCase :: "string \<Rightarrow> string" where
  "toLowerCase s = map toLowerCase_char s"

subsection \<open>\<^verbatim>\<open>BigInt(string)\<close>\<close>

text \<open>
  \<^verbatim>\<open>BigInt(s)\<close> on a string parses a StringIntegerLiteral: optional white space around
  either nothing (the value is 0), or a decimal literal with an optional sign, or an
  unsigned literal with the prefix 0x, 0o or 0b. Anything else makes \<^verbatim>\<open>BigInt\<close> throw
  a SyntaxError, which is \<open>None\<close> here.
\<close>

definition isStrWhiteSpaceChar :: "char \<Rightarrow> bool" where
  "isStrWhiteSpaceChar c = ((of_char c :: nat) \<in> {9, 10, 11, 12, 13, 32})"

definition trimString :: "string \<Rightarrow> string" where
  "trimString s = rev (dropWhile isStrWhiteSpaceChar (rev (dropWhile isStrWhiteSpaceChar s)))"

definition digit_value :: "char \<Rightarrow> nat option" where
  "digit_value c =
     (let k = (of_char c :: nat)
      in if 48 \<le> k \<and> k \<le> 57 then Some (k - 48)
         else if 97 \<le> k \<and> k \<le> 102 then Some (k - 87)
         else if 65 \<le> k \<and> k \<le> 70 then Some (k - 55)
         else None)"

fun digits_value :: "nat \<Rightarrow> nat \<Rightarrow> string \<Rightarrow> nat option" where
  "digits_value radix acc [] = Some acc"
| "digits_value radix acc (c # cs) =
     (case digit_value c of
        None \<Rightarrow> None
      | Some d \<Rightarrow> if d < radix then digits_value radix (acc * radix + d) cs else None)"

text \<open>One or more digits of the radix.\<close>

definition parse_digits :: "nat \<Rightarrow> string \<Rightarrow> nat option" where
  "parse_digits radix cs = (if cs = [] then None else digits_value radix 0 cs)"

definition BigInt :: "string \<Rightarrow> int option" where
  "BigInt s =
     (let t = trimString s
      in case t of
           [] \<Rightarrow> Some 0
         | c # cs \<Rightarrow>
             if c = CHR ''+'' then map_option int (parse_digits 10 cs)
             else if c = CHR ''-'' then map_option (\<lambda>n. - int n) (parse_digits 10 cs)
             else if c = CHR ''0'' \<and> cs \<noteq> [] \<and> hd cs \<in> {CHR ''x'', CHR ''X''}
               then map_option int (parse_digits 16 (tl cs))
             else if c = CHR ''0'' \<and> cs \<noteq> [] \<and> hd cs \<in> {CHR ''o'', CHR ''O''}
               then map_option int (parse_digits 8 (tl cs))
             else if c = CHR ''0'' \<and> cs \<noteq> [] \<and> hd cs \<in> {CHR ''b'', CHR ''B''}
               then map_option int (parse_digits 2 (tl cs))
             else map_option int (parse_digits 10 t))"

section \<open>WagmiWrapper.tsx: the connection manager\<close>

text \<open>
  A chain as wagmi's \<^verbatim>\<open>useNetwork\<close> reports it; only \<^verbatim>\<open>id\<close> and \<^verbatim>\<open>name\<close> are read.
  \<^verbatim>\<open>DEFAULT_CHAIN\<close> is imported from \<^verbatim>\<open>@/lib/web3\<close>, which is outside the two source
  files, so it is a parameter of every definition that reads it.
\<close>

record chain =
  chain_id :: int
  chain_name :: string

text \<open>\<^verbatim>\<open>!!chain && chain.id !== DEFAULT_CHAIN.id\<close>\<close>

definition isInvalidNetwork :: "chain \<Rightarrow> chain option \<Rightarrow> bool" where
  "isInvalidNetwork DEFAULT_CHAIN c =
     (case c of None \<Rightarrow> False | Some ch \<Rightarrow> chain_id ch \<noteq> chain_id DEFAULT_CHAIN)"

datatype 'a connection_view = ConnectWalletPrompt | InvalidNetwork | Children 'a

text \<open>
  \<^verbatim>\<open>WagmiConnectionManager\<close>: without an address the connect prompt, on an invalid
  network the switch prompt, otherwise the children.
\<close>

definition WagmiConnectionManager ::
  "chain \<Rightarrow> chain option \<Rightarrow> string option \<Rightarrow> 'a \<Rightarrow> 'a connection_view" where
  "WagmiConnectionManager DEFAULT_CHAIN c address children =
     (if \<not> truthy_string address then ConnectWalletPrompt
      else if isInvalidNetwork DEFAULT_CHAIN c then InvalidNetwork
      else Children children)"

section \<open>MintPanel.tsx: the data\<close>

text \<open>
  The \<^verbatim>\<open>Mint\<close> type is declared in \<^verbatim>\<open>@/types\<close>; the record has the fields the panel
  computes with, typed as the panel uses them. \<^verbatim>\<open>_id.toString()\<close> is \<open>mint_id\<close>;
  \<open>nonce\<close> and \<open>amount\<close> are strings handed to \<^verbatim>\<open>BigInt\<close>; \<open>nonce\<close>, \<open>data\<close> and
  \<open>signatures\<close> are tested with \<^verbatim>\<open>!\<close>, so they are optional. \<open>signatures\<close> is an
  array (its \<^verbatim>\<open>length\<close> is read), which is truthy whenever it is present. The payload
  type of \<open>data\<close> is a parameter: the panel passes it on unread, and which of its values
  are truthy is a parameter of the mint action. The remaining fields (hashes, height,
  sender, dates) are only displayed.
\<close>

record 'd Mint =
  mint_id :: string
  recipient_address :: string
  amount :: string
  nonce :: "string option"
  status :: string
  data :: "'d option"
  signatures :: "string list option"

text \<open>
  The template literal \<^verbatim>\<open>CLI_CODE\<close>. \<^verbatim>\<open>POKT_MULTISIG_ADDRESS\<close> comes from
  \<^verbatim>\<open>@/utils/constants\<close> and is a parameter.
\<close>

definition CLI_CODE :: "string \<Rightarrow> string" where
  \<open>CLI_CODE POKT_MULTISIG_ADDRESS =
     ''pocket accounts send-tx 92d75da9086b557764432b66b7d3703c1492771a '' @
     POKT_MULTISIG_ADDRESS @
     '' 20000000 testnet 10000 '' @ [CHR 0x27] @
     ''{"address":"0x3F9B2fea60325d733e61bC76598725c5430cD751","chain_id":"5"}'' @
     [CHR 0x27] @ ''  --remoteCLIURL https://node2.testnet.pokt.network''\<close>

section \<open>MintPanel.tsx: one row of the table\<close>

text \<open>
  \<^verbatim>\<open>nonce ? !mint.nonce || BigInt(mint.nonce) > nonce + BigInt(1) : true\<close>, where the
  first argument is \<^verbatim>\<open>nonceMap[mint.recipient_address.toLowerCase()]\<close>. The condition
  of the ternary is the truthiness of a bigint that may be undefined.
\<close>

definition isMintNotReady :: "int option \<Rightarrow> 'd Mint \<Rightarrow> js_error + bool" where
  "isMintNotReady n mint =
     (case n of
        None \<Rightarrow> Inr True
      | Some k \<Rightarrow>
          if k = 0 then Inr True
          else (case nonce mint of
                  None \<Rightarrow> Inr True
                | Some s \<Rightarrow>
                    if s = [] then Inr True
                    else (case BigInt s of
                            None \<Rightarrow> Inl SyntaxError
                          | Some m \<Rightarrow> Inr (m > k + 1))))"

text \<open>\<^verbatim>\<open>nonce ? !!mint.nonce && BigInt(mint.nonce) <= nonce : true\<close>\<close>

definition isMintCompleted :: "int option \<Rightarrow> 'd Mint \<Rightarrow> js_error + bool" where
  "isMintCompleted n mint =
     (case n of
        None \<Rightarrow> Inr True
      | Some k \<Rightarrow>
          if k = 0 then Inr True
          else (case nonce mint of
                  None \<Rightarrow> Inr False
                | Some s \<Rightarrow>
                    if s = [] then Inr False
                    else (case BigInt s of
                            None \<Rightarrow> Inl SyntaxError
                          | Some m \<Rightarrow> Inr (m \<le> k))))"

text \<open>
  The condition of the action cell:
  \<^verbatim>\<open>!!nonce && (mint.status === 'signed' || (mint.status === 'confirmed' && mint.signatures.length >= 2))\<close>.
  Reading \<^verbatim>\<open>length\<close> of a missing \<^verbatim>\<open>signatures\<close> is a TypeError.
\<close>

definition showMintButton :: "int option \<Rightarrow> 'd Mint \<Rightarrow> js_error + bool" where
  "showMintButton n mint =
     (if \<not> truthy_bigint n then Inr False
      else if status mint = ''signed'' then Inr True
      else if status mint = ''confirmed'' then
        (case signatures mint of
           None \<Rightarrow> Inl TypeError
         | Some sigs \<Rightarrow> Inr (length sigs \<ge> 2))
      else Inr False)"

text \<open>The action cell: the text N/A, or the Mint button with its props and tooltip.\<close>

datatype action_cell =
    NotAvailable
  | MintButton (button_isLoading: bool) (button_isDisabled: bool) (tooltip_label: string)

definition tooltipLabel :: "bool \<Rightarrow> bool \<Rightarrow> string" where
  "tooltipLabel notReady completed =
     (if notReady then ''Please complete previous mints first''
      else if completed
        then ''Mint completed, please wait for validators to mark it as complete''
      else [])"

record mint_row =
  row_isMintNotReady :: bool
  row_isMintCompleted :: bool
  row_amount :: int
  row_action :: action_cell

text \<open>
  The body of \<^verbatim>\<open>mints.map(mint => ...)\<close>, in the order the expressions are evaluated:
  the two flags, \<^verbatim>\<open>BigInt(mint.amount)\<close> for the amount cell, then the action cell.
  \<open>loading\<close> and \<open>current\<close> are the panel's \<^verbatim>\<open>isLoading\<close> and \<^verbatim>\<open>currentMintId\<close>.
  An exception in any of them aborts the rendering. The helpers of the other cells
  (\<^verbatim>\<open>HashDisplay\<close>, \<^verbatim>\<open>formatUnits\<close>, \<^verbatim>\<open>humanFormattedDate\<close>) are imported and only
  format what is displayed.
\<close>

definition render_row ::
  "(string \<rightharpoonup> int) \<Rightarrow> bool \<Rightarrow> string option \<Rightarrow> 'd Mint \<Rightarrow> js_error + mint_row" where
  "render_row nonceMap loading current mint =
     (let n = nonceMap (toLowerCase (recipient_address mint))
      in case isMintNotReady n mint of
           Inl e \<Rightarrow> Inl e
         | Inr notReady \<Rightarrow>
        (case isMintCompleted n mint of
           Inl e \<Rightarrow> Inl e
         | Inr completed \<Rightarrow>
        (case BigInt (amount mint) of
           None \<Rightarrow> Inl SyntaxError
         | Some a \<Rightarrow>
        (case showMintButton n mint of
           Inl e \<Rightarrow> Inl e
         | Inr shown \<Rightarrow>
             Inr \<lparr>row_isMintNotReady = notReady,
                  row_isMintCompleted = completed,
                  row_amount = a,
                  row_action =
                    (if shown
                     then MintButton (loading \<and> Some (mint_id mint) = current)
                            (notReady \<or> completed) (tooltipLabel notReady completed)
                     else NotAvailable)\<rparr>))))"

text \<open>
  The four-case definition of the specification, on a nonce \<open>n\<close> that may be unknown and
  a recorded nonce \<open>m\<close> that may be unset: not ready if \<open>n\<close> is unknown, or \<open>m\<close> is unset,
  or \<open>m > n + 1\<close>; completed if \<open>n\<close> is known and \<open>m\<close> is set and \<open>m \<le> n\<close>.
\<close>

definition spec_not_ready :: "int option \<Rightarrow> int option \<Rightarrow> bool" where
  "spec_not_ready n m =
     (case n of
        None \<Rightarrow> True
      | Some k \<Rightarrow> (case m of None \<Rightarrow> True | Some j \<Rightarrow> j > k + 1))"

definition spec_completed :: "int option \<Rightarrow> int option \<Rightarrow> bool" where
  "spec_completed n m =
     (case n of
        None \<Rightarrow> False
      | Some k \<Rightarrow> (case m of None \<Rightarrow> False | Some j \<Rightarrow> j \<le> k))"

text \<open>
  The recorded nonce of a mint as a number, as both flags read it: unset (\<open>Inr None\<close>)
  when \<^verbatim>\<open>!mint.nonce\<close> holds, the value of \<^verbatim>\<open>BigInt(mint.nonce)\<close> otherwise, and a
  SyntaxError when that conversion throws.
\<close>

definition recorded_nonce :: "'d Mint \<Rightarrow> js_error + int option" where
  "recorded_nonce mint =
     (case nonce mint of
        None \<Rightarrow> Inr None
      | Some s \<Rightarrow>
          if s = [] then Inr None
          else (case BigInt s of None \<Rightarrow> Inl SyntaxError | Some m \<Rightarrow> Inr (Some m)))"

section \<open>MintPanel.tsx: the mint action\<close>

text \<open>
  \<^verbatim>\<open>mintTokens\<close> is an async callback that sets component state, shows toasts and calls
  the wallet. The model threads the panel's state through it and records every call in
  the order it is made.
\<close>

record toast_options =
  title :: string
  description :: "string option"
  href :: "string option"
  toast_status :: string
  duration :: "nat option"
  isClosable :: bool

text \<open>The argument of \<^verbatim>\<open>walletClient.writeContract\<close> (the ABI is a constant and is left out).\<close>

record 'd write_request =
  account :: string
  contract_address :: string
  functionName :: string
  args :: "'d \<times> string list"

datatype 'd call =
    SetIsLoading bool
  | SetCurrentMintId "string option"
  | WriteContract "'d write_request"
  | WaitForTransactionReceipt string
  | ToastCloseAll
  | Toast toast_options
  | ConsoleError string
  | Refresh
  | Reload

record 'd panel_state =
  isLoading :: bool
  currentMintId :: "string option"
  refreshCount :: nat
  calls :: "'d call list"

text \<open>
  What awaiting a promise gives: its value, an exception (also one thrown before any
  promise exists), or nothing, when the promise never settles.
\<close>

datatype 'a settled = Fulfilled 'a | Rejected string | Pending

text \<open>
  The wallet as the hooks supply it: \<^verbatim>\<open>account.address\<close>, and the two clients when
  they exist, each given by what its one operation answers.
\<close>

record 'd wallet_env =
  account_address :: "string option"
  walletClient :: "('d write_request \<Rightarrow> string settled) option"
  publicClient :: "(string \<Rightarrow> unit settled) option"

text \<open>
  An invocation either returns, or stays suspended at an \<^verbatim>\<open>await\<close> that never
  settles; both carry the state reached.
\<close>

datatype 's run = Returned 's | Suspended 's

text \<open>Whether an invocation returned, and the state it reached.\<close>

fun returned :: "'s run \<Rightarrow> bool" where
  "returned (Returned s) = True"
| "returned (Suspended s) = False"

fun run_state :: "'s run \<Rightarrow> 's" where
  "run_state (Returned s) = s"
| "run_state (Suspended s) = s"

definition record_call :: "'d call \<Rightarrow> 'd panel_state \<Rightarrow> 'd panel_state" where
  "record_call c s = s\<lparr>calls := calls s @ [c]\<rparr>"

definition setIsLoading :: "bool \<Rightarrow> 'd panel_state \<Rightarrow> 'd panel_state" where
  "setIsLoading b s = record_call (SetIsLoading b) (s\<lparr>isLoading := b\<rparr>)"

definition setCurrentMintId :: "string option \<Rightarrow> 'd panel_state \<Rightarrow> 'd panel_state" where
  "setCurrentMintId v s = record_call (SetCurrentMintId v) (s\<lparr>currentMintId := v\<rparr>)"

text \<open>\<^verbatim>\<open>refresh(c => c + 1)\<close>: the setter of \<^verbatim>\<open>refreshCount\<close>, which the nonce map depends on.\<close>

definition refresh :: "(nat \<Rightarrow> nat) \<Rightarrow> 'd panel_state \<Rightarrow> 'd panel_state" where
  "refresh f s = record_call Refresh (s\<lparr>refreshCount := f (refreshCount s)\<rparr>)"

text \<open>\<^verbatim>\<open>reload\<close> of \<^verbatim>\<open>useAllMints\<close>; the panel calls it from the Reload button only.\<close>

definition reload :: "'d panel_state \<Rightarrow> 'd panel_state" where
  "reload s = record_call Reload s"

definition ReloadButton_onClick :: "'d panel_state \<Rightarrow> 'd panel_state" where
  "ReloadButton_onClick s = reload s"

definition toast :: "toast_options \<Rightarrow> 'd panel_state \<Rightarrow> 'd panel_state" where
  "toast t s = record_call (Toast t) s"

definition toast_closeAll :: "'d panel_state \<Rightarrow> 'd panel_state" where
  "toast_closeAll s = record_call ToastCloseAll s"

definition console_error :: "string \<Rightarrow> 'd panel_state \<Rightarrow> 'd panel_state" where
  "console_error e s = record_call (ConsoleError e) s"

definition mintNotReadyToast :: toast_options where
  "mintNotReadyToast =
     \<lparr>title = ''Error'', description = Some ''Mint is not ready'', href = None,
      toast_status = ''error'', duration = Some 5000, isClosable = True\<rparr>"

definition transactionSentToast :: "string \<Rightarrow> toast_options" where
  "transactionSentToast txHash =
     \<lparr>title = ''Transaction sent'',
      description = Some ''Minting tokens, view on Etherscan '',
      href = Some (''https://goerli.etherscan.io/tx/'' @ txHash),
      toast_status = ''loading'', duration = None, isClosable = False\<rparr>"

definition transactionSuccessfulToast :: toast_options where
  "transactionSuccessfulToast =
     \<lparr>title = ''Transaction successful. You tokens are bridged!'', description = None,
      href = None, toast_status = ''success'', duration = Some 5000, isClosable = True\<rparr>"

definition mintErrorToast :: toast_options where
  "mintErrorToast =
     \<lparr>title = ''Error'',
      description = Some ''Error minting tokens, please try again later'', href = None,
      toast_status = ''error'', duration = Some 5000, isClosable = True\<rparr>"

text \<open>The \<^verbatim>\<open>catch\<close> block and the \<^verbatim>\<open>finally\<close> block.\<close>

definition catch_block :: "string \<Rightarrow> 'd panel_state \<Rightarrow> 'd panel_state" where
  "catch_block e s = toast mintErrorToast (console_error e (toast_closeAll s))"

definition finally_block :: "'d panel_state \<Rightarrow> 'd panel_state" where
  "finally_block s = setCurrentMintId None (setIsLoading False s)"

text \<open>The object \<^verbatim>\<open>mintTokens\<close> passes to \<^verbatim>\<open>walletClient.writeContract\<close>.\<close>

definition mintWrappedPocket_request ::
  "string \<Rightarrow> string \<Rightarrow> 'd \<Rightarrow> string list \<Rightarrow> 'd write_request" where
  "mintWrappedPocket_request MINT_CONTROLLER_ADDRESS addr d sigs =
     \<lparr>account = addr, contract_address = MINT_CONTROLLER_ADDRESS,
      functionName = ''mintWrappedPocket'', args = (d, sigs)\<rparr>"

text \<open>
  \<^verbatim>\<open>mintTokens(mint)\<close>. \<^verbatim>\<open>MINT_CONTROLLER_ADDRESS\<close> comes from \<^verbatim>\<open>@/utils/constants\<close>
  and is a parameter. The first guard tests \<^verbatim>\<open>!mint.data || !mint.signatures\<close>: a missing
  payload and a present but falsy one (\<open>truthy_data\<close> says which values are truthy) both
  fail it, as a missing array does, while an empty array is truthy. The second guard
  tests \<^verbatim>\<open>!account.address || !walletClient || !publicClient\<close>.
\<close>

definition mintTokens ::
  "('d \<Rightarrow> bool) \<Rightarrow> string \<Rightarrow> 'd wallet_env \<Rightarrow> 'd Mint \<Rightarrow> 'd panel_state
     \<Rightarrow> 'd panel_state run" where
  "mintTokens truthy_data MINT_CONTROLLER_ADDRESS env mint s =
     (case data mint of
        None \<Rightarrow> Returned (toast mintNotReadyToast s)
      | Some d \<Rightarrow>
     (if \<not> truthy_data d then Returned (toast mintNotReadyToast s) else
     (case signatures mint of
        None \<Rightarrow> Returned (toast mintNotReadyToast s)
      | Some sigs \<Rightarrow>
     (case account_address env of
        None \<Rightarrow> Returned s
      | Some addr \<Rightarrow>
     (if addr = [] then Returned s else
     (case walletClient env of
        None \<Rightarrow> Returned s
      | Some writeContract \<Rightarrow>
     (case publicClient env of
        None \<Rightarrow> Returned s
      | Some waitForTransactionReceipt \<Rightarrow>
          (let s1 = setCurrentMintId (Some (mint_id mint)) (setIsLoading True s);
               req = mintWrappedPocket_request MINT_CONTROLLER_ADDRESS addr d sigs;
               s2 = record_call (WriteContract req) s1
           in case writeContract req of
                Pending \<Rightarrow> Suspended s2
              | Rejected e \<Rightarrow> Returned (finally_block (catch_block e s2))
              | Fulfilled txHash \<Rightarrow>
                  (let s3 = toast (transactionSentToast txHash) (toast_closeAll s2);
                       s4 = record_call (WaitForTransactionReceipt txHash) s3
                   in case waitForTransactionReceipt txHash of
                        Pending \<Rightarrow> Suspended s4
                      | Rejected e \<Rightarrow> Returned (finally_block (catch_block e s4))
                      | Fulfilled u \<Rightarrow>
                          Returned (finally_block
                            (refresh (\<lambda>c. c + 1)
                              (toast transactionSuccessfulToast
                                (toast_closeAll s4)))))))))))))"

text \<open>The calls an invocation added to the record, and the toasts among them.\<close>

definition new_calls :: "'d panel_state \<Rightarrow> 'd panel_state \<Rightarrow> 'd call list" where
  "new_calls s s' = drop (length (calls s)) (calls s')"

fun is_error_toast :: "'d call \<Rightarrow> bool" where
  "is_error_toast (Toast t) = (toast_status t = ''error'')"
| "is_error_toast c = False"

fun is_toast :: "'d call \<Rightarrow> bool" where
  "is_toast (Toast t) = True"
| "is_toast c = False"

fun is_write :: "'d call \<Rightarrow> bool" where
  "is_write (WriteContract r) = True"
| "is_write c = False"

section \<open>MintPanel.tsx: the copy affordance\<close>

text \<open>
  Modelled from the spec: the hook \<^verbatim>\<open>useClipboard\<close> (imported from the component library,
  not among the source files). The panel takes \<^verbatim>\<open>onCopy\<close>, \<^verbatim>\<open>hasCopied\<close>, \<^verbatim>\<open>value\<close> and
  \<^verbatim>\<open>setValue\<close> from \<^verbatim>\<open>useClipboard(CLI_CODE)\<close>. The hook holds a text, initially its
  argument, which \<^verbatim>\<open>setValue\<close> replaces, and a copied-state flag, initially false, which
  invoking the copy operation makes true.
\<close>

record clipboard =
  clip_value :: string
  hasCopied :: bool

definition useClipboard :: "string \<Rightarrow> clipboard" where
  "useClipboard initial = \<lparr>clip_value = initial, hasCopied = False\<rparr>"

definition setValue :: "string \<Rightarrow> clipboard \<Rightarrow> clipboard" where
  "setValue v c = c\<lparr>clip_value := v\<rparr>"

definition onCopy :: "clipboard \<Rightarrow> clipboard" where
  "onCopy c = c\<lparr>hasCopied := True\<rparr>"

text \<open>
  What the panel wires to the hook: the button calls \<^verbatim>\<open>onCopy()\<close> and is labelled by
  \<^verbatim>\<open>hasCopied\<close>; the text area shows \<^verbatim>\<open>value\<close> and its change handler calls
  \<^verbatim>\<open>setValue(e.target.value)\<close>.
\<close>

definition CopyButton_onClick :: "clipboard \<Rightarrow> clipboard" where
  "CopyButton_onClick c = onCopy c"

definition CopyButton_label :: "clipboard \<Rightarrow> string" where
  "CopyButton_label c = (if hasCopied c then ''Copied!'' else ''Copy code'')"

definition Textarea_value :: "clipboard \<Rightarrow> string" where
  "Textarea_value c = clip_value c"

definition Textarea_onChange :: "string \<Rightarrow> clipboard \<Rightarrow> clipboard" where
  "Textarea_onChange v c = setValue v c"

section \<open>Sample inputs\<close>

text \<open>
  Concrete inputs for the closed theorems below: a signed mint with two signatures whose
  recorded nonce is the argument and whose payload is a string (truthy when it is not
  empty), an idle panel, and a wallet whose two operations answer as given.
\<close>

definition truthy_text :: "string \<Rightarrow> bool" where
  "truthy_text t = (t \<noteq> [])"

definition sample_mint :: "string option \<Rightarrow> string Mint" where
  "sample_mint mint_nonce =
     \<lparr>mint_id = ''64f0'', recipient_address = ''0xAbC1'', amount = ''20000000'',
      nonce = mint_nonce, status = ''signed'', data = Some ''0xdata'',
      signatures = Some [''0xs1'', ''0xs2'']\<rparr>"

definition sample_state :: "string panel_state" where
  "sample_state = \<lparr>isLoading = False, currentMintId = None, refreshCount = 0, calls = []\<rparr>"

definition sample_env :: "string settled \<Rightarrow> unit settled \<Rightarrow> string wallet_env" where
  "sample_env written confirmed =
     \<lparr>account_address = Some ''0xF00'', walletClient = Some (\<lambda>req. written),
      publicClient = Some (\<lambda>txHash. confirmed)\<rparr>"

section \<open>Evaluation rules\<close>

lemmas BigInt_defs = BigInt_def trimString_def isStrWhiteSpaceChar_def parse_digits_def
  digit_value_def

lemmas row_defs = render_row_def isMintNotReady_def isMintCompleted_def showMintButton_def
  recorded_nonce_def truthy_bigint_def tooltipLabel_def toLowerCase_def toLowerCase_char_def

lemmas prim_defs = record_call_def setIsLoading_def setCurrentMintId_def refresh_def toast_def
  toast_closeAll_def console_error_def catch_block_def finally_block_def new_calls_def

section \<open>Network validity\<close>

text \<open>
  C4. For every chain value \<open>c\<close>, the network-invalidity predicate is true exactly
  when \<open>c\<close> is not null and its identifier differs from the identifier of the one
  required chain.
\<close>

theorem isInvalidNetwork_iff:
  "isInvalidNetwork DEFAULT_CHAIN c =
     (c \<noteq> None \<and> (\<exists>ch. c = Some ch \<and> chain_id ch \<noteq> chain_id DEFAULT_CHAIN))"
  by (cases c) (simp_all add: isInvalidNetwork_def)

theorem isInvalidNetwork_iff_witness:
  "isInvalidNetwork \<lparr>chain_id = 5, chain_name = ''Goerli''\<rparr>
     (Some \<lparr>chain_id = 1, chain_name = ''Ethereum''\<rparr>)
   \<and> \<not> isInvalidNetwork \<lparr>chain_id = 5, chain_name = ''Goerli''\<rparr>
     (Some \<lparr>chain_id = 5, chain_name = ''Goerli''\<rparr>)
   \<and> \<not> isInvalidNetwork \<lparr>chain_id = 5, chain_name = ''Goerli''\<rparr> None"
  using isInvalidNetwork_iff [of "\<lparr>chain_id = 5, chain_name = ''Goerli''\<rparr>"
      "Some \<lparr>chain_id = 1, chain_name = ''Ethereum''\<rparr>"]
    isInvalidNetwork_iff [of "\<lparr>chain_id = 5, chain_name = ''Goerli''\<rparr>"
      "Some \<lparr>chain_id = 5, chain_name = ''Goerli''\<rparr>"]
    isInvalidNetwork_iff [of "\<lparr>chain_id = 5, chain_name = ''Goerli''\<rparr>" None]
  by simp

section \<open>Actionability of a row\<close>

text \<open>
  C1 (as amended). For every per-recipient on-chain nonce \<open>n\<close> that is unknown or known
  and not zero, and every mint whose recorded nonce is unset or converts to a number \<open>m\<close>:
  the mint is "not ready" exactly when \<open>n\<close> is unknown, or the recorded nonce is unset, or
  \<open>m > n + 1\<close>; it is "completed" exactly when \<open>n\<close> is unknown, or \<open>n\<close> is known, the
  recorded nonce is set and \<open>m \<le> n\<close>.
\<close>

theorem isMint_flags_four_cases:
  assumes "n \<noteq> Some 0" and "recorded_nonce mint = Inr m"
  shows "isMintNotReady n mint = Inr (spec_not_ready n m)
       \<and> isMintCompleted n mint = Inr (n = None \<or> spec_completed n m)"
  using assms
  by (auto simp: isMintNotReady_def isMintCompleted_def recorded_nonce_def
        spec_not_ready_def spec_completed_def split: option.splits if_splits)

theorem isMint_flags_four_cases_witness:
  "Some (1::int) \<noteq> Some 0
   \<and> recorded_nonce (sample_mint (Some ''2'')) = Inr (Some 2)
   \<and> isMintNotReady (Some 1) (sample_mint (Some ''2'')) = Inr False
   \<and> isMintCompleted (Some 1) (sample_mint (Some ''2'')) = Inr False"
proof -
  have known: "Some (1::int) \<noteq> Some 0"
    by simp
  have recorded: "recorded_nonce (sample_mint (Some ''2'')) = Inr (Some 2)"
    by (simp add: row_defs BigInt_defs sample_mint_def)
  have "spec_not_ready (Some 1) (Some 2) = False" "spec_completed (Some 1) (Some 2) = False"
    by (simp_all add: spec_not_ready_def spec_completed_def)
  with isMint_flags_four_cases [OF known recorded] known recorded show ?thesis
    by simp
qed

text \<open>
  The claim as stated fails in three places. With the nonce unknown the mint is
  "completed", which the four-case definition denies; a known nonce of zero is taken
  as unknown, so a mint with recorded nonce 1 is "not ready" although \<open>1 > 0 + 1\<close> is
  false; and a recorded nonce that is no integer literal gives no flags at all.
\<close>

theorem isMint_flags_counterexample:
  "recorded_nonce (sample_mint (Some ''1'')) = Inr (Some 1)
   \<and> isMintCompleted None (sample_mint (Some ''1'')) \<noteq> Inr (spec_completed None (Some 1))
   \<and> isMintNotReady (Some 0) (sample_mint (Some ''1''))
       \<noteq> Inr (spec_not_ready (Some 0) (Some 1))
   \<and> isMintNotReady (Some 1) (sample_mint (Some ''abc'')) = Inl SyntaxError"
  by (simp add: row_defs BigInt_defs sample_mint_def spec_not_ready_def spec_completed_def)

text \<open>
  C3. For every rendered row, if the action cell holds the Mint button and the button is
  not disabled, then the status is "signed", or it is "confirmed" with at least two
  collected signatures, and neither the "not ready" nor the "completed" condition of
  the actionability check holds for the row: the recipient's nonce \<open>k\<close> is known (and
  not zero), the recorded nonce \<open>m\<close> of the mint is set, and \<open>k < m \<le> k + 1\<close>; so both
  flags of the row are false.
\<close>

theorem MintButton_enabled_only_when:
  assumes "render_row nonceMap loading current mint = Inr row"
    and "row_action row = MintButton l False tip"
  shows "(status mint = ''signed''
          \<or> (status mint = ''confirmed''
              \<and> (\<exists>sigs. signatures mint = Some sigs \<and> 2 \<le> length sigs)))
       \<and> (\<exists>k m. nonceMap (toLowerCase (recipient_address mint)) = Some k \<and> k \<noteq> 0
              \<and> recorded_nonce mint = Inr (Some m) \<and> k < m \<and> m \<le> k + 1
              \<and> \<not> spec_not_ready (Some k) (Some m) \<and> \<not> spec_completed (Some k) (Some m))
       \<and> \<not> row_isMintNotReady row \<and> \<not> row_isMintCompleted row
       \<and> isMintNotReady (nonceMap (toLowerCase (recipient_address mint))) mint = Inr False
       \<and> isMintCompleted (nonceMap (toLowerCase (recipient_address mint))) mint = Inr False"
proof -
  let ?n = "nonceMap (toLowerCase (recipient_address mint))"
  from assms obtain notReady completed a shown
    where nr: "isMintNotReady ?n mint = Inr notReady"
      and cp: "isMintCompleted ?n mint = Inr completed"
      and shown: "showMintButton ?n mint = Inr shown"
      and row: "row = \<lparr>row_isMintNotReady = notReady, row_isMintCompleted = completed,
                  row_amount = a,
                  row_action =
                    (if shown
                     then MintButton (loading \<and> Some (mint_id mint) = current)
                            (notReady \<or> completed) (tooltipLabel notReady completed)
                     else NotAvailable)\<rparr>"
    by (auto simp: render_row_def Let_def split: sum.splits option.splits)
  from row assms(2) have enabled: "shown" "\<not> notReady" "\<not> completed"
    by (auto split: if_splits)
  from shown enabled(1) have gate: "status mint = ''signed''
      \<or> (status mint = ''confirmed''
          \<and> (\<exists>sigs. signatures mint = Some sigs \<and> 2 \<le> length sigs))"
    by (auto simp: showMintButton_def split: if_splits option.splits)
  from nr cp enabled(2,3) have check: "\<exists>k m. ?n = Some k \<and> k \<noteq> 0
      \<and> recorded_nonce mint = Inr (Some m) \<and> k < m \<and> m \<le> k + 1
      \<and> \<not> spec_not_ready (Some k) (Some m) \<and> \<not> spec_completed (Some k) (Some m)"
    by (auto simp: isMintNotReady_def isMintCompleted_def recorded_nonce_def
          spec_not_ready_def spec_completed_def split: option.splits if_splits)
  from gate check nr cp enabled(2,3) row show ?thesis
    by simp
qed

theorem MintButton_enabled_only_when_witness:
  "render_row [''0xabc1'' \<mapsto> 1] False None (sample_mint (Some ''2'')) =
     Inr \<lparr>row_isMintNotReady = False, row_isMintCompleted = False, row_amount = 20000000,
          row_action = MintButton False False []\<rparr>
   \<and> status (sample_mint (Some ''2'')) = ''signed''
   \<and> [''0xabc1'' \<mapsto> (1::int)] (toLowerCase (recipient_address (sample_mint (Some ''2''))))
       = Some 1
   \<and> recorded_nonce (sample_mint (Some ''2'')) = Inr (Some 2)
   \<and> (\<exists>k m. [''0xabc1'' \<mapsto> (1::int)]
                (toLowerCase (recipient_address (sample_mint (Some ''2'')))) = Some k
          \<and> recorded_nonce (sample_mint (Some ''2'')) = Inr (Some m)
          \<and> k < m \<and> m \<le> k + 1)"
proof -
  let ?row = "\<lparr>row_isMintNotReady = False, row_isMintCompleted = False,
                row_amount = 20000000, row_action = MintButton False False []\<rparr>"
  have rendered: "render_row [''0xabc1'' \<mapsto> 1] False None (sample_mint (Some ''2'')) = Inr ?row"
    by (simp add: row_defs BigInt_defs sample_mint_def)
  have button: "row_action ?row = MintButton False False []"
    by simp
  have status: "status (sample_mint (Some ''2'')) = ''signed''"
    by (simp add: sample_mint_def)
  have known: "[''0xabc1'' \<mapsto> (1::int)]
      (toLowerCase (recipient_address (sample_mint (Some ''2'')))) = Some 1"
    by (simp add: row_defs sample_mint_def)
  have recorded: "recorded_nonce (sample_mint (Some ''2'')) = Inr (Some 2)"
    by (simp add: row_defs BigInt_defs sample_mint_def)
  from MintButton_enabled_only_when [OF rendered button]
  have "\<exists>k m. [''0xabc1'' \<mapsto> (1::int)]
                (toLowerCase (recipient_address (sample_mint (Some ''2'')))) = Some k
          \<and> recorded_nonce (sample_mint (Some ''2'')) = Inr (Some m)
          \<and> k < m \<and> m \<le> k + 1"
    by blast
  with rendered status known recorded show ?thesis
    by blast
qed

text \<open>
  C9. For every mint whose recipient's on-chain nonce is exactly zero, the nonce is
  treated as unknown: the mint is classified both "not ready" and "completed", the
  condition of the Mint button is false, and the row, which renders whenever the amount
  converts, has the text N/A in its action cell and no button; it is rendered exactly as
  with the nonce missing from the map.
\<close>

theorem render_row_zero_nonce:
  assumes "nonceMap (toLowerCase (recipient_address mint)) = Some 0"
  shows "isMintNotReady (nonceMap (toLowerCase (recipient_address mint))) mint = Inr True
       \<and> isMintCompleted (nonceMap (toLowerCase (recipient_address mint))) mint = Inr True
       \<and> showMintButton (nonceMap (toLowerCase (recipient_address mint))) mint = Inr False
       \<and> (\<forall>a. BigInt (amount mint) = Some a \<longrightarrow>
             render_row nonceMap loading current mint =
               Inr \<lparr>row_isMintNotReady = True, row_isMintCompleted = True, row_amount = a,
                    row_action = NotAvailable\<rparr>)
       \<and> render_row nonceMap loading current mint =
           render_row (nonceMap(toLowerCase (recipient_address mint) := None))
             loading current mint"
  using assms
  by (simp add: render_row_def isMintNotReady_def isMintCompleted_def showMintButton_def
        truthy_bigint_def split: option.splits)

theorem render_row_zero_nonce_witness:
  "[''0xabc1'' \<mapsto> (0::int)] (toLowerCase (recipient_address (sample_mint (Some ''1'')))) = Some 0
   \<and> BigInt (amount (sample_mint (Some ''1''))) = Some 20000000
   \<and> render_row [''0xabc1'' \<mapsto> 0] True (Some ''64f0'') (sample_mint (Some ''1'')) =
       Inr \<lparr>row_isMintNotReady = True, row_isMintCompleted = True, row_amount = 20000000,
            row_action = NotAvailable\<rparr>"
proof -
  have zero: "[''0xabc1'' \<mapsto> (0::int)] (toLowerCase (recipient_address (sample_mint (Some ''1''))))
      = Some 0"
    by (simp add: row_defs sample_mint_def)
  have converts: "BigInt (amount (sample_mint (Some ''1''))) = Some 20000000"
    by (simp add: BigInt_defs sample_mint_def)
  from render_row_zero_nonce [where nonceMap = "[''0xabc1'' \<mapsto> 0]"
      and mint = "sample_mint (Some ''1'')" and loading = True and current = "Some ''64f0''",
      OF zero] zero converts
  show ?thesis
    by simp
qed

section \<open>The mint action\<close>

text \<open>
  Past both guards, \<^verbatim>\<open>mintTokens\<close> is its \<^verbatim>\<open>try\<close> statement. The first guard is
  passed by a payload that is present and truthy and an array of signatures that is
  present.
\<close>

lemma mintTokens_entered:
  assumes "data mint = Some d" "truthy_data d" "signatures mint = Some sigs"
    "account_address env = Some addr" "addr \<noteq> []"
    "walletClient env = Some w" "publicClient env = Some p"
  shows "mintTokens truthy_data A env mint s =
     (let s1 = setCurrentMintId (Some (mint_id mint)) (setIsLoading True s);
          req = mintWrappedPocket_request A addr d sigs;
          s2 = record_call (WriteContract req) s1
      in case w req of
           Pending \<Rightarrow> Suspended s2
         | Rejected e \<Rightarrow> Returned (finally_block (catch_block e s2))
         | Fulfilled txHash \<Rightarrow>
             (let s3 = toast (transactionSentToast txHash) (toast_closeAll s2);
                  s4 = record_call (WaitForTransactionReceipt txHash) s3
              in case p txHash of
                   Pending \<Rightarrow> Suspended s4
                 | Rejected e \<Rightarrow> Returned (finally_block (catch_block e s4))
                 | Fulfilled u \<Rightarrow>
                     Returned (finally_block
                       (refresh (\<lambda>c. c + 1)
                         (toast transactionSuccessfulToast (toast_closeAll s4))))))"
  using assms by (simp add: mintTokens_def)

text \<open>A payload that is present but falsy fails the first guard as a missing one does.\<close>

lemma mintTokens_falsy_data:
  assumes "data mint = Some d" and "\<not> truthy_data d"
  shows "mintTokens truthy_data A env mint s = Returned (toast mintNotReadyToast s)"
  using assms by (simp add: mintTokens_def)

lemma sample_env_entered:
  "data (sample_mint mint_nonce) = Some ''0xdata''"
  "truthy_text ''0xdata''"
  "signatures (sample_mint mint_nonce) = Some [''0xs1'', ''0xs2'']"
  "account_address (sample_env written confirmed) = Some ''0xF00''"
  "''0xF00'' \<noteq> []"
  "walletClient (sample_env written confirmed) = Some (\<lambda>req. written)"
  "publicClient (sample_env written confirmed) = Some (\<lambda>txHash. confirmed)"
  by (simp_all add: sample_mint_def sample_env_def truthy_text_def)

text \<open>
  C5. For every mint lacking its data field or its signatures field, the mint action
  returns without calling the contract-write operation, and the one call it makes is
  one toast, of status "error".
\<close>

theorem mintTokens_missing_data_or_signatures:
  assumes "data mint = None \<or> signatures mint = None"
  shows "\<exists>s'. mintTokens truthy_data A env mint s = Returned s'
          \<and> new_calls s s' = [Toast mintNotReadyToast]
          \<and> filter is_write (new_calls s s') = []
          \<and> filter is_toast (new_calls s s') = [Toast mintNotReadyToast]
          \<and> filter is_error_toast (new_calls s s') = [Toast mintNotReadyToast]"
  using assms
  by (auto simp: mintTokens_def prim_defs mintNotReadyToast_def split: option.splits)

theorem mintTokens_missing_data_or_signatures_witness:
  "(data ((sample_mint (Some ''1''))\<lparr>signatures := None\<rparr>) = None
      \<or> signatures ((sample_mint (Some ''1''))\<lparr>signatures := None\<rparr>) = None)
   \<and> (\<exists>s'. mintTokens truthy_text ''0xC0'' (sample_env (Fulfilled ''0xtx'') (Fulfilled ()))
               ((sample_mint (Some ''1''))\<lparr>signatures := None\<rparr>) sample_state = Returned s'
          \<and> new_calls sample_state s' = [Toast mintNotReadyToast]
          \<and> filter is_write (new_calls sample_state s') = [])"
proof -
  have lacking: "data ((sample_mint (Some ''1''))\<lparr>signatures := None\<rparr>) = None
      \<or> signatures ((sample_mint (Some ''1''))\<lparr>signatures := None\<rparr>) = None"
    by simp
  from mintTokens_missing_data_or_signatures [where truthy_data = truthy_text
      and A = "''0xC0''" and env = "sample_env (Fulfilled ''0xtx'') (Fulfilled ())"
      and s = sample_state, OF lacking] lacking
  show ?thesis
    by blast
qed

text \<open>
  C10. For every mint that has both data (a truthy payload) and signatures, if the
  account address, the wallet client or the public client is unavailable, the mint
  action returns with the panel state as it was and no call made: no contract write, no
  notification, the loading flag and the current-mint-id marker unchanged.
\<close>

theorem mintTokens_wallet_unavailable:
  assumes "data mint = Some d" and "truthy_data d" and "signatures mint = Some sigs"
    and "\<not> truthy_string (account_address env) \<or> walletClient env = None
         \<or> publicClient env = None"
  shows "\<exists>s'. mintTokens truthy_data A env mint s = Returned s'
          \<and> new_calls s s' = []
          \<and> isLoading s' = isLoading s
          \<and> currentMintId s' = currentMintId s
          \<and> s' = s"
  using assms
  by (auto simp: mintTokens_def truthy_string_def new_calls_def split: option.splits)

theorem mintTokens_wallet_unavailable_witness:
  "data (sample_mint (Some ''1'')) = Some ''0xdata''
   \<and> truthy_text ''0xdata''
   \<and> signatures (sample_mint (Some ''1'')) = Some [''0xs1'', ''0xs2'']
   \<and> walletClient ((sample_env Pending Pending)\<lparr>walletClient := None\<rparr>) = None
   \<and> mintTokens truthy_text ''0xC0'' ((sample_env Pending Pending)\<lparr>walletClient := None\<rparr>)
        (sample_mint (Some ''1'')) (sample_state\<lparr>isLoading := True\<rparr>)
       = Returned (sample_state\<lparr>isLoading := True\<rparr>)
   \<and> new_calls (sample_state\<lparr>isLoading := True\<rparr>) (sample_state\<lparr>isLoading := True\<rparr>) = []"
proof -
  have unavailable:
    "\<not> truthy_string (account_address ((sample_env Pending Pending)\<lparr>walletClient := None\<rparr>))
     \<or> walletClient ((sample_env Pending Pending)\<lparr>walletClient := None\<rparr>) = None
     \<or> publicClient ((sample_env Pending Pending)\<lparr>walletClient := None\<rparr>) = None"
    by simp
  have present: "data (sample_mint (Some ''1'')) = Some ''0xdata''"
    "truthy_text ''0xdata''"
    "signatures (sample_mint (Some ''1'')) = Some [''0xs1'', ''0xs2'']"
    by (simp_all add: sample_mint_def truthy_text_def)
  from mintTokens_wallet_unavailable [where truthy_data = truthy_text and A = "''0xC0''"
      and s = "sample_state\<lparr>isLoading := True\<rparr>" and mint = "sample_mint (Some ''1'')"
      and d = "''0xdata''", OF present unavailable] present
  show ?thesis
    by simp
qed

text \<open>
  C6. For every invocation of the mint action that reaches the contract write (truthy
  payload, signatures, account and both clients present) and in which the write call
  throws, the invocation returns, the loading flag is false afterwards, and exactly one
  toast was shown, of status "error".
\<close>

theorem mintTokens_write_fails:
  assumes "data mint = Some d" and "truthy_data d" and "signatures mint = Some sigs"
    and "account_address env = Some addr" and "addr \<noteq> []"
    and "walletClient env = Some w" and "publicClient env = Some p"
    and "w (mintWrappedPocket_request A addr d sigs) = Rejected e"
  shows "\<exists>s'. mintTokens truthy_data A env mint s = Returned s'
          \<and> isLoading s' = False
          \<and> filter is_write (new_calls s s')
              = [WriteContract (mintWrappedPocket_request A addr d sigs)]
          \<and> filter is_error_toast (new_calls s s') = [Toast mintErrorToast]
          \<and> filter is_toast (new_calls s s') = [Toast mintErrorToast]"
  using assms
  by (simp add: mintTokens_entered prim_defs mintErrorToast_def)

theorem mintTokens_write_fails_witness:
  "\<exists>s'. mintTokens truthy_text ''0xC0''
           (sample_env (Rejected ''User rejected the request'') Pending)
           (sample_mint (Some ''1'')) (sample_state\<lparr>isLoading := True\<rparr>) = Returned s'
        \<and> isLoading s' = False
        \<and> filter is_toast (new_calls (sample_state\<lparr>isLoading := True\<rparr>) s')
            = [Toast mintErrorToast]"
proof -
  have fails: "(\<lambda>req. Rejected ''User rejected the request'')
      (mintWrappedPocket_request ''0xC0'' ''0xF00'' ''0xdata'' [''0xs1'', ''0xs2''])
      = (Rejected ''User rejected the request'' :: string settled)"
    by simp
  from mintTokens_write_fails [where truthy_data = truthy_text and A = "''0xC0''"
      and s = "sample_state\<lparr>isLoading := True\<rparr>"
      and mint = "sample_mint (Some ''1'')" and d = "''0xdata''"
      and env = "sample_env (Rejected ''User rejected the request'') Pending",
      OF sample_env_entered fails]
  show ?thesis
    by blast
qed

text \<open>
  C7. For every invocation of the mint action that enters the submission phase (truthy
  payload, signatures, account and both clients present, so that the busy indicator is
  set): if it returns, the loading flag is false and the current-mint-id marker is null
  afterwards, whether the write and the confirmation succeeded or failed; and it does
  return whenever neither awaited operation stays pending for ever.
\<close>

theorem mintTokens_cleanup:
  assumes "data mint = Some d" and "truthy_data d" and "signatures mint = Some sigs"
    and "account_address env = Some addr" and "addr \<noteq> []"
    and "walletClient env = Some w" and "publicClient env = Some p"
  shows "(\<forall>s'. mintTokens truthy_data A env mint s = Returned s'
            \<longrightarrow> isLoading s' = False \<and> currentMintId s' = None)
       \<and> (w (mintWrappedPocket_request A addr d sigs) \<noteq> Pending
            \<and> (\<forall>txHash. w (mintWrappedPocket_request A addr d sigs) = Fulfilled txHash
                  \<longrightarrow> p txHash \<noteq> Pending)
            \<longrightarrow> (\<exists>s'. mintTokens truthy_data A env mint s = Returned s'))
       \<and> SetIsLoading True \<in> set (new_calls s (run_state (mintTokens truthy_data A env mint s)))"
  using assms
  by (auto simp: mintTokens_entered prim_defs Let_def split: settled.splits)

theorem mintTokens_cleanup_witness:
  "\<exists>s'. mintTokens truthy_text ''0xC0''
           (sample_env (Fulfilled ''0xtx'') (Rejected ''timed out''))
           (sample_mint (Some ''1'')) sample_state = Returned s'
        \<and> isLoading s' = False \<and> currentMintId s' = None"
proof -
  have settles: "(\<lambda>req. Fulfilled ''0xtx'')
        (mintWrappedPocket_request ''0xC0'' ''0xF00'' ''0xdata'' [''0xs1'', ''0xs2''])
        \<noteq> (Pending :: string settled)
      \<and> (\<forall>txHash. (\<lambda>req. Fulfilled ''0xtx'')
              (mintWrappedPocket_request ''0xC0'' ''0xF00'' ''0xdata'' [''0xs1'', ''0xs2''])
              = Fulfilled txHash
            \<longrightarrow> (\<lambda>txHash. Rejected ''timed out'') txHash \<noteq> (Pending :: unit settled))"
    by simp
  from mintTokens_cleanup [where truthy_data = truthy_text and A = "''0xC0''"
      and s = sample_state and mint = "sample_mint (Some ''1'')" and d = "''0xdata''"
      and env = "sample_env (Fulfilled ''0xtx'') (Rejected ''timed out'')",
      OF sample_env_entered] settles
  show ?thesis
    by blast
qed

text \<open>
  C2 (as amended). For every invocation of the mint action in which the contract write
  succeeds and the wait for confirmation succeeds, the invocation returns having made
  exactly the calls listed: the refresh trigger of the per-address nonce lookup is
  invoked exactly once, after the confirmation and the success toast, and raises the
  refresh counter by one; the reload trigger of the mint list is not invoked.
\<close>

theorem mintTokens_success_refreshes_once:
  assumes "data mint = Some d" and "truthy_data d" and "signatures mint = Some sigs"
    and "account_address env = Some addr" and "addr \<noteq> []"
    and "walletClient env = Some w" and "publicClient env = Some p"
    and "w (mintWrappedPocket_request A addr d sigs) = Fulfilled txHash"
    and "p txHash = Fulfilled u"
  shows "\<exists>s'. mintTokens truthy_data A env mint s = Returned s'
          \<and> new_calls s s' =
              [SetIsLoading True, SetCurrentMintId (Some (mint_id mint)),
               WriteContract (mintWrappedPocket_request A addr d sigs),
               ToastCloseAll, Toast (transactionSentToast txHash),
               WaitForTransactionReceipt txHash,
               ToastCloseAll, Toast transactionSuccessfulToast, Refresh,
               SetIsLoading False, SetCurrentMintId None]
          \<and> count_list (new_calls s s') Refresh = 1
          \<and> count_list (new_calls s s') Reload = 0
          \<and> refreshCount s' = refreshCount s + 1"
  using assms
  by (simp add: mintTokens_entered prim_defs)

theorem mintTokens_success_refreshes_once_witness:
  "\<exists>s'. mintTokens truthy_text ''0xC0'' (sample_env (Fulfilled ''0xtx'') (Fulfilled ()))
           (sample_mint (Some ''1'')) sample_state = Returned s'
        \<and> count_list (new_calls sample_state s') Refresh = 1
        \<and> count_list (new_calls sample_state s') Reload = 0
        \<and> refreshCount s' = 1"
proof -
  have written: "(\<lambda>req. Fulfilled ''0xtx'')
      (mintWrappedPocket_request ''0xC0'' ''0xF00'' ''0xdata'' [''0xs1'', ''0xs2''])
      = (Fulfilled ''0xtx'' :: string settled)"
    by simp
  have confirmed: "(\<lambda>txHash. Fulfilled ()) ''0xtx'' = (Fulfilled () :: unit settled)"
    by simp
  have count: "refreshCount sample_state = 0"
    by (simp add: sample_state_def)
  from mintTokens_success_refreshes_once [where truthy_data = truthy_text
      and A = "''0xC0''" and s = sample_state
      and mint = "sample_mint (Some ''1'')" and d = "''0xdata''"
      and env = "sample_env (Fulfilled ''0xtx'') (Fulfilled ())",
      OF sample_env_entered written confirmed] count
  show ?thesis
    by auto
qed

text \<open>
  The claim as stated fails: after a successful write and a successful confirmation the
  invocation has returned and the reload trigger of the mint list was called zero
  times, not once.
\<close>

theorem mintTokens_success_reload_counterexample:
  "returned (mintTokens truthy_text ''0xC0'' (sample_env (Fulfilled ''0xtx'') (Fulfilled ()))
      (sample_mint (Some ''1'')) sample_state)
   \<and> count_list (new_calls sample_state
        (run_state (mintTokens truthy_text ''0xC0''
           (sample_env (Fulfilled ''0xtx'') (Fulfilled ()))
           (sample_mint (Some ''1'')) sample_state))) Reload = 0
   \<and> count_list (new_calls sample_state
        (run_state (mintTokens truthy_text ''0xC0''
           (sample_env (Fulfilled ''0xtx'') (Fulfilled ()))
           (sample_mint (Some ''1'')) sample_state))) Reload \<noteq> 1"
  by (simp add: mintTokens_def prim_defs sample_env_def sample_mint_def sample_state_def
      truthy_text_def)

section \<open>The copy affordance\<close>

text \<open>
  C8 (as amended). While the displayed text is the deposit instruction \<^verbatim>\<open>CLI_CODE\<close>
  (as it is when the panel mounts, and until the text area is edited), invoking the
  copy affordance makes the copied-state flag true and leaves the displayed text equal
  to that string; after an edit the displayed text is the edited text, and it still is
  once the copy affordance has been invoked and has made the flag true.
\<close>

theorem copy_keeps_deposit_instruction:
  assumes "Textarea_value c = CLI_CODE POKT_MULTISIG_ADDRESS"
  shows "hasCopied (CopyButton_onClick c)
       \<and> CopyButton_label (CopyButton_onClick c) = ''Copied!''
       \<and> Textarea_value (CopyButton_onClick c) = CLI_CODE POKT_MULTISIG_ADDRESS
       \<and> (\<forall>v. Textarea_value (Textarea_onChange v c) = v
              \<and> Textarea_value (CopyButton_onClick (Textarea_onChange v c)) = v
              \<and> hasCopied (CopyButton_onClick (Textarea_onChange v c)))"
  using assms
  by (simp add: CopyButton_onClick_def CopyButton_label_def onCopy_def Textarea_value_def
        Textarea_onChange_def setValue_def)

theorem copy_keeps_deposit_instruction_witness:
  "Textarea_value (useClipboard (CLI_CODE ''7FB0A18CEB4E803F22911F5B85E2727BB3BDF04B''))
     = CLI_CODE ''7FB0A18CEB4E803F22911F5B85E2727BB3BDF04B''
   \<and> hasCopied (CopyButton_onClick
        (useClipboard (CLI_CODE ''7FB0A18CEB4E803F22911F5B85E2727BB3BDF04B'')))
   \<and> Textarea_value (CopyButton_onClick
        (useClipboard (CLI_CODE ''7FB0A18CEB4E803F22911F5B85E2727BB3BDF04B'')))
     = CLI_CODE ''7FB0A18CEB4E803F22911F5B85E2727BB3BDF04B''
   \<and> Textarea_value (Textarea_onChange ''pocket accounts list''
        (useClipboard (CLI_CODE ''7FB0A18CEB4E803F22911F5B85E2727BB3BDF04B'')))
     = ''pocket accounts list''"
proof -
  have mounted:
    "Textarea_value (useClipboard (CLI_CODE ''7FB0A18CEB4E803F22911F5B85E2727BB3BDF04B''))
       = CLI_CODE ''7FB0A18CEB4E803F22911F5B85E2727BB3BDF04B''"
    by (simp add: Textarea_value_def useClipboard_def)
  from copy_keeps_deposit_instruction [OF mounted] mounted show ?thesis
    by blast
qed

text \<open>
  The claim as stated fails once the text area has been edited: its change handler
  replaces the text, and invoking the copy affordance afterwards leaves the edited
  text displayed, not the deposit instruction.
\<close>

theorem copy_after_edit_counterexample:
  "hasCopied (CopyButton_onClick (Textarea_onChange ''pocket accounts list''
      (useClipboard (CLI_CODE ''7FB0A18CEB4E803F22911F5B85E2727BB3BDF04B''))))
   \<and> Textarea_value (CopyButton_onClick (Textarea_onChange ''pocket accounts list''
      (useClipboard (CLI_CODE ''7FB0A18CEB4E803F22911F5B85E2727BB3BDF04B''))))
     \<noteq> CLI_CODE ''7FB0A18CEB4E803F22911F5B85E2727BB3BDF04B''"
  by (simp add: CopyButton_onClick_def onCopy_def Textarea_value_def Textarea_onChange_def
      setValue_def useClipboard_def CLI_CODE_def)

end
